theory Spec2Isabelle
  imports Complex_Main "HOL-Library.Sublist"
begin

section \<open>Python values\<close>

text \<open>
  The benchmark driver (\<^verbatim>\<open>benchmark.py\<close>) is dynamically typed: the statistics endpoint
  answers with JSON, and every value the code reads from it may be null, a boolean, a
  number, a string, a list or an object. The model keeps that: \<open>pyval\<close> is the type of the
  values the code handles.

  A Python \<^verbatim>\<open>float\<close> is modelled as an exact rational extended by the two infinities and
  NaN (\<^verbatim>\<open>float("inf")\<close> and \<^verbatim>\<open>float("nan")\<close> are accepted by the builtin). Rounding,
  overflow and underflow of IEEE doubles are not modelled: \<^verbatim>\<open>456.78 / 1000.0\<close> is the
  rational \<open>45678 / 100000\<close>. The integer \<^verbatim>\<open>0\<close> that the parsers return on empty input is
  identified with the float \<^verbatim>\<open>0.0\<close> (Python compares them equal).

  Strings are ASCII strings; a JSON object is an association list read with \<open>map_of\<close>.
\<close>

datatype pyfloat = Finite rat | PosInf | NegInf | NaN

datatype pyval =
    PNone
  | PBool bool
  | PInt int
  | PFloat pyfloat
  | PStr string
  | PList "pyval list"
  | PDict "(string \<times> pyval) list"

datatype error = ValueError | TypeError | AttributeError | KeyError | ZeroDivisionError

text \<open>Sequencing of computations that may raise: the first exception wins.\<close>

definition bindE :: "error + 'a \<Rightarrow> ('a \<Rightarrow> error + 'b) \<Rightarrow> error + 'b" where
  "bindE m f = (case m of Inl e \<Rightarrow> Inl e | Inr x \<Rightarrow> f x)"

text \<open>Truth value testing (\<^verbatim>\<open>if x\<close>, \<^verbatim>\<open>not x\<close>, \<^verbatim>\<open>x or y\<close>).\<close>

fun truthy :: "pyval \<Rightarrow> bool" where
  "truthy PNone = False"
| "truthy (PBool b) = b"
| "truthy (PInt n) = (n \<noteq> 0)"
| "truthy (PFloat x) = (x \<noteq> Finite 0)"
| "truthy (PStr s) = (s \<noteq> [])"
| "truthy (PList xs) = (xs \<noteq> [])"
| "truthy (PDict kvs) = (kvs \<noteq> [])"

definition py_or :: "pyval \<Rightarrow> pyval \<Rightarrow> pyval" where
  "py_or x y = (if truthy x then x else y)"

subsection \<open>Arithmetic and comparison on floats\<close>

text \<open>\<^verbatim>\<open>x > 0\<close>, \<^verbatim>\<open>x == 0\<close>, and multiplication and division by a positive finite constant.\<close>

fun float_gt0 :: "pyfloat \<Rightarrow> bool" where
  "float_gt0 (Finite q) = (0 < q)"
| "float_gt0 PosInf = True"
| "float_gt0 NegInf = False"
| "float_gt0 NaN = False"

definition float_eq0 :: "pyfloat \<Rightarrow> bool" where
  "float_eq0 x = (x = Finite 0)"

fun float_scale :: "rat \<Rightarrow> pyfloat \<Rightarrow> pyfloat" where
  "float_scale c (Finite q) = Finite (q * c)"
| "float_scale c x = x"

subsection \<open>String methods\<close>

definition lower_char :: "char \<Rightarrow> char" where
  "lower_char c =
     (case map_of (zip ''ABCDEFGHIJKLMNOPQRSTUVWXYZ'' ''abcdefghijklmnopqrstuvwxyz'') c of
        Some d \<Rightarrow> d | None \<Rightarrow> c)"

definition upper_char :: "char \<Rightarrow> char" where
  "upper_char c =
     (case map_of (zip ''abcdefghijklmnopqrstuvwxyz'' ''ABCDEFGHIJKLMNOPQRSTUVWXYZ'') c of
        Some d \<Rightarrow> d | None \<Rightarrow> c)"

definition lower :: "string \<Rightarrow> string" where
  "lower s = map lower_char s"

definition upper :: "string \<Rightarrow> string" where
  "upper s = map upper_char s"

text \<open>The ASCII characters for which \<^verbatim>\<open>str.isspace\<close> holds.\<close>

definition is_space :: "char \<Rightarrow> bool" where
  "is_space c = (c \<in> set [CHR 0x09, CHR 0x0A, CHR 0x0B, CHR 0x0C, CHR 0x0D,
                           CHR 0x1C, CHR 0x1D, CHR 0x1E, CHR 0x1F, CHR 0x20])"

definition rstrip_chars :: "(char \<Rightarrow> bool) \<Rightarrow> string \<Rightarrow> string" where
  "rstrip_chars p s = rev (dropWhile p (rev s))"

definition strip :: "string \<Rightarrow> string" where
  "strip s = rstrip_chars is_space (dropWhile is_space s)"

text \<open>\<^verbatim>\<open>s.rstrip(cs)\<close> removes every trailing character that occurs in \<open>cs\<close>.\<close>

definition rstrip :: "string \<Rightarrow> string \<Rightarrow> string" where
  "rstrip cs s = rstrip_chars (\<lambda>c. c \<in> set cs) s"

definition endswith :: "string \<Rightarrow> string \<Rightarrow> bool" where
  "endswith suf s = suffix suf s"

text \<open>\<^verbatim>\<open>sub in s\<close> on strings: \<open>sub\<close> occurs as a contiguous block.\<close>

fun str_in :: "string \<Rightarrow> string \<Rightarrow> bool" where
  "str_in sub [] = (sub = [])"
| "str_in sub (c # cs) = (prefix sub (c # cs) \<or> str_in sub cs)"

text \<open>
  \<^verbatim>\<open>s.replace(old, '')\<close>: every occurrence of \<open>old\<close> is deleted, scanning from the left
  without overlap. With an empty \<open>old\<close> nothing is deleted.
\<close>

function str_remove :: "string \<Rightarrow> string \<Rightarrow> string" where
  "str_remove old [] = []"
| "str_remove old (c # cs) =
     (if old \<noteq> [] \<and> prefix old (c # cs) then str_remove old (drop (length old) (c # cs))
      else c # str_remove old cs)"
  by pat_completeness auto
termination
  by (relation "measure (\<lambda>(old, s). length s)") (auto simp: Suc_le_eq le_Suc_eq)

text \<open>\<^verbatim>\<open>str(n)\<close> for an integer.\<close>

definition digit_char :: "nat \<Rightarrow> char" where
  "digit_char d = ''0123456789'' ! d"

function str_nat :: "nat \<Rightarrow> string" where
  "str_nat n = (if n < 10 then [digit_char n] else str_nat (n div 10) @ [digit_char (n mod 10)])"
  by pat_completeness auto
termination
  by (relation "measure id") auto

definition str_int :: "int \<Rightarrow> string" where
  "str_int i = (if i < 0 then CHR ''-'' # str_nat (nat (- i)) else str_nat (nat i))"

text \<open>
  \<^verbatim>\<open>str(v)\<close>. The text Python prints for a float, a list or a dict is not part of this
  repository and is left to the parameter \<open>repr\<close>.
\<close>

fun str_of :: "(pyval \<Rightarrow> string) \<Rightarrow> pyval \<Rightarrow> string" where
  "str_of repr (PStr s) = s"
| "str_of repr PNone = ''None''"
| "str_of repr (PBool b) = (if b then ''True'' else ''False'')"
| "str_of repr (PInt i) = str_int i"
| "str_of repr v = repr v"

subsection \<open>The builtin \<^verbatim>\<open>float(s)\<close>\<close>

text \<open>
  \<^verbatim>\<open>float\<close> accepts, between optional whitespace, an optional sign followed by
  \<^verbatim>\<open>inf\<close>, \<^verbatim>\<open>infinity\<close> or \<^verbatim>\<open>nan\<close> in any case, or by a decimal number: digits
  with an optional point and an optional exponent, where single underscores may separate
  digits. Anything else raises \<^verbatim>\<open>ValueError\<close>.
\<close>

definition is_digit :: "char \<Rightarrow> bool" where
  "is_digit c = (c \<in> set ''0123456789'')"

definition digit_val :: "char \<Rightarrow> nat" where
  "digit_val c = (case map_of (zip ''0123456789'' [0, 1, 2, 3, 4, 5, 6, 7, 8, 9]) c of
                    Some d \<Rightarrow> d | None \<Rightarrow> 0)"

text \<open>A digit part: digits, with single underscores allowed between two digits.\<close>

fun digitpart :: "string \<Rightarrow> bool" where
  "digitpart [] = False"
| "digitpart [c] = is_digit c"
| "digitpart (c # d # cs) =
     (is_digit c \<and> (if d = CHR ''_'' then digitpart cs else digitpart (d # cs)))"

definition digits_val :: "string \<Rightarrow> nat" where
  "digits_val s = foldl (\<lambda>a c. 10 * a + digit_val c) 0 (filter is_digit s)"

definition pow10 :: "int \<Rightarrow> rat" where
  "pow10 e = (if 0 \<le> e then 10 ^ nat e else 1 / 10 ^ nat (- e))"

text \<open>The exponent after \<^verbatim>\<open>e\<close>: an optional sign and a digit part.\<close>

definition exponent :: "string \<Rightarrow> int option" where
  "exponent s =
     (case s of
        [] \<Rightarrow> None
      | c # cs \<Rightarrow>
          if c = CHR ''-'' then (if digitpart cs then Some (- int (digits_val cs)) else None)
          else if c = CHR ''+'' then (if digitpart cs then Some (int (digits_val cs)) else None)
          else if digitpart s then Some (int (digits_val s)) else None)"

text \<open>The number before the exponent: \<^verbatim>\<open>12\<close>, \<^verbatim>\<open>12.\<close>, \<^verbatim>\<open>12.5\<close> or \<^verbatim>\<open>.5\<close>.\<close>

definition mantissa :: "string \<Rightarrow> (nat \<times> nat) option" where
  "mantissa s =
     (let ip = takeWhile (\<lambda>c. c \<noteq> CHR ''.'') s;
          rest = dropWhile (\<lambda>c. c \<noteq> CHR ''.'') s
      in if rest = [] then (if digitpart ip then Some (digits_val ip, 0) else None)
         else let fp = tl rest
              in if (ip = [] \<or> digitpart ip) \<and> (fp = [] \<or> digitpart fp) \<and> \<not> (ip = [] \<and> fp = [])
                 then Some (digits_val (ip @ fp), length (filter is_digit fp))
                 else None)"

definition floatnumber :: "string \<Rightarrow> rat option" where
  "floatnumber s =
     (let m = takeWhile (\<lambda>c. c \<noteq> CHR ''e'' \<and> c \<noteq> CHR ''E'') s;
          rest = dropWhile (\<lambda>c. c \<noteq> CHR ''e'' \<and> c \<noteq> CHR ''E'') s
      in case mantissa m of
           None \<Rightarrow> None
         | Some (n, k) \<Rightarrow>
             if rest = [] then Some (of_nat n * pow10 (- int k))
             else (case exponent (tl rest) of
                     None \<Rightarrow> None
                   | Some e \<Rightarrow> Some (of_nat n * pow10 (e - int k))))"

definition absfloatvalue :: "string \<Rightarrow> pyfloat option" where
  "absfloatvalue s =
     (if lower s = ''inf'' \<or> lower s = ''infinity'' then Some PosInf
      else if lower s = ''nan'' then Some NaN
      else map_option Finite (floatnumber s))"

fun float_neg :: "pyfloat \<Rightarrow> pyfloat" where
  "float_neg (Finite q) = Finite (- q)"
| "float_neg PosInf = NegInf"
| "float_neg NegInf = PosInf"
| "float_neg NaN = NaN"

definition py_float :: "string \<Rightarrow> error + pyfloat" where
  "py_float s0 =
     (let s = strip s0
      in case (case s of
                 [] \<Rightarrow> None
               | c # cs \<Rightarrow>
                   if c = CHR ''-'' then map_option float_neg (absfloatvalue cs)
                   else if c = CHR ''+'' then absfloatvalue cs
                   else absfloatvalue s) of
           None \<Rightarrow> Inl ValueError
         | Some x \<Rightarrow> Inr x)"

section \<open>Duration and memory parsers\<close>

text \<open>
  \<^verbatim>\<open>parse_duration_to_seconds\<close>: a falsy argument gives 0; otherwise the text of the
  argument is lowercased and stripped, and the first matching branch of the chain decides
  the unit. Only the last branch guards \<^verbatim>\<open>float\<close> by \<^verbatim>\<open>try\<close>/\<^verbatim>\<open>except\<close>.
\<close>

definition parse_duration_to_seconds :: "(pyval \<Rightarrow> string) \<Rightarrow> pyval \<Rightarrow> error + pyfloat" where
  "parse_duration_to_seconds repr duration_str =
     (if \<not> truthy duration_str then Inr (Finite 0)
      else let d = strip (lower (str_of repr duration_str))
           in if str_in ''ns'' d then
                bindE (py_float (str_remove ''ns'' d)) (\<lambda>x. Inr (float_scale (1 / 1000000000) x))
              else if endswith ''n'' d then
                bindE (py_float (rstrip ''n'' d)) (\<lambda>x. Inr (float_scale (1 / 1000000000) x))
              else if str_in ''ms'' d then
                bindE (py_float (str_remove ''ms'' d)) (\<lambda>x. Inr (float_scale (1 / 1000) x))
              else if str_in ''us'' d then
                bindE (py_float (str_remove ''us'' d)) (\<lambda>x. Inr (float_scale (1 / 1000000) x))
              else if str_in ''s'' d then
                py_float (str_remove ''s'' d)
              else if str_in ''m'' d then
                bindE (py_float (str_remove ''m'' d)) (\<lambda>x. Inr (float_scale 60 x))
              else (case py_float d of Inl e \<Rightarrow> Inr (Finite 0) | Inr x \<Rightarrow> Inr x))"

text \<open>
  \<^verbatim>\<open>parse_memory_to_mb\<close>: the text is uppercased (not stripped; \<^verbatim>\<open>float\<close> strips). The
  fourth test repeats the negation of the second and third, as the source does.
\<close>

definition parse_memory_to_mb :: "(pyval \<Rightarrow> string) \<Rightarrow> pyval \<Rightarrow> error + pyfloat" where
  "parse_memory_to_mb repr memory_str =
     (if \<not> truthy memory_str then Inr (Finite 0)
      else let m = upper (str_of repr memory_str)
           in if str_in ''GB'' m then
                bindE (py_float (str_remove ''GB'' m)) (\<lambda>x. Inr (float_scale 1024 x))
              else if str_in ''MB'' m then
                py_float (str_remove ''MB'' m)
              else if str_in ''KB'' m then
                bindE (py_float (str_remove ''KB'' m)) (\<lambda>x. Inr (float_scale (1 / 1024) x))
              else if str_in ''B'' m \<and> \<not> str_in ''KB'' m \<and> \<not> str_in ''MB'' m then
                bindE (py_float (str_remove ''B'' m)) (\<lambda>x. Inr (float_scale (1 / 1024 ^ 2) x))
              else (case py_float m of
                      Inl e \<Rightarrow> Inr (Finite 0)
                    | Inr x \<Rightarrow> Inr (float_scale (1 / 1024 ^ 2) x)))"

section \<open>Metrics extractor\<close>

subsection \<open>Dictionaries and dynamic operations\<close>

text \<open>\<^verbatim>\<open>d.get(k)\<close> and \<^verbatim>\<open>d.get(k, default)\<close> on a dict.\<close>

definition dict_get_default :: "(string \<times> pyval) list \<Rightarrow> string \<Rightarrow> pyval \<Rightarrow> pyval" where
  "dict_get_default d k dflt = (case map_of d k of Some v \<Rightarrow> v | None \<Rightarrow> dflt)"

definition dict_get :: "(string \<times> pyval) list \<Rightarrow> string \<Rightarrow> pyval" where
  "dict_get d k = dict_get_default d k PNone"

text \<open>Only a dict has the method \<^verbatim>\<open>get\<close>: on any other value the call raises.\<close>

definition as_dict :: "pyval \<Rightarrow> error + (string \<times> pyval) list" where
  "as_dict v = (case v of PDict d \<Rightarrow> Inr d | _ \<Rightarrow> Inl AttributeError)"

text \<open>\<^verbatim>\<open>k in v\<close> for a string \<open>k\<close>: key of a dict, substring of a string, element of a list.\<close>

definition py_contains :: "string \<Rightarrow> pyval \<Rightarrow> error + bool" where
  "py_contains k v =
     (case v of
        PDict d \<Rightarrow> Inr (k \<in> set (map fst d))
      | PStr s \<Rightarrow> Inr (str_in k s)
      | PList xs \<Rightarrow> Inr (PStr k \<in> set xs)
      | _ \<Rightarrow> Inl TypeError)"

text \<open>\<^verbatim>\<open>v[k]\<close> for a string \<open>k\<close>.\<close>

definition py_subscript :: "pyval \<Rightarrow> string \<Rightarrow> error + pyval" where
  "py_subscript v k =
     (case v of
        PDict d \<Rightarrow> (case map_of d k of Some x \<Rightarrow> Inr x | None \<Rightarrow> Inl KeyError)
      | _ \<Rightarrow> Inl TypeError)"

subsection \<open>The statistics endpoint\<close>

record trino_config =
  host :: string
  port :: int
  user :: string

text \<open>
  What \<^verbatim>\<open>requests.get\<close> does: it raises, or it returns a response with a status code
  and a body; \<^verbatim>\<open>response.json()\<close> gives the decoded body, or raises when the body is
  not JSON (\<open>None\<close>).
\<close>

datatype http_reply = Raises | Response nat "pyval option"

text \<open>
  The network: what the endpoint answers to a URL and its headers, and the requests sent
  so far. Console output (the warnings) is not modelled.
\<close>

record net =
  replies :: "string \<Rightarrow> (string \<times> string) list \<Rightarrow> http_reply"
  sent :: "(string \<times> (string \<times> string) list) list"

definition requests_get :: "string \<Rightarrow> (string \<times> string) list \<Rightarrow> net \<Rightarrow> http_reply \<times> net" where
  "requests_get url headers w = (replies w url headers, w\<lparr>sent := sent w @ [(url, headers)]\<rparr>)"

definition api_url :: "trino_config \<Rightarrow> string \<Rightarrow> string" where
  "api_url cfg query_id =
     ''http://'' @ host cfg @ '':'' @ str_int (port cfg) @ ''/v1/query/'' @ query_id"

text \<open>The dict that \<^verbatim>\<open>get_query_stats_from_api\<close> returns on success; \<open>None\<close> is \<^verbatim>\<open>{}\<close>.\<close>

record stats_record =
  query_id :: string
  state :: pyval
  cpu_time_str :: pyval
  cpu_time_sec :: pyfloat
  elapsed_time_str :: pyval
  elapsed_time_sec :: pyfloat
  peak_memory_str :: pyval
  peak_memory_mb :: pyfloat
  physical_input_rows :: pyval
  output_rows :: pyval
  source :: string

text \<open>
  The body of the branch \<^verbatim>\<open>if response.status_code == 200\<close>, from the decoded body
  \<open>data\<close> on. Any exception raised here is caught by the caller's \<^verbatim>\<open>except Exception\<close>.
\<close>

definition stats_from_response :: "(pyval \<Rightarrow> string) \<Rightarrow> string \<Rightarrow> pyval \<Rightarrow> error + stats_record" where
  "stats_from_response repr qid data_v =
     bindE (as_dict data_v) (\<lambda>data.
     bindE (as_dict (dict_get_default data ''queryStats'' (PDict []))) (\<lambda>stats.
       let cpu_time =
             py_or (dict_get stats ''totalCpuTime'')
            (py_or (dict_get stats ''cpuTime'')
            (py_or (dict_get stats ''totalCpuTimeMillis'')
                   (PStr ''0ms'')));
           elapsed_time =
             py_or (dict_get stats ''elapsedTime'')
            (py_or (dict_get stats ''executionTime'')
            (py_or (dict_get stats ''elapsedTimeMillis'')
                   (PStr ''0ms'')));
           peak_memory0 =
             py_or (dict_get stats ''peakMemoryReservation'')
            (py_or (dict_get stats ''peakUserMemoryReservation'')
            (py_or (dict_get stats ''peakTotalMemoryReservation'')
            (py_or (dict_get stats ''peakTaskUserMemory'')
            (py_or (dict_get stats ''peakUserMemory'')
                   (dict_get stats ''peakTotalMemory'')))));
           input_rows =
             py_or (dict_get stats ''physicalInputRows'')
            (py_or (dict_get stats ''processedInputRows'')
            (py_or (dict_get stats ''rawInputRows'')
            (py_or (dict_get stats ''inputRows'')
                   (PInt 0))));
           output_rows =
             py_or (dict_get stats ''outputRows'')
            (py_or (dict_get stats ''completedRows'')
                   (PInt 0))
       in
       bindE (if \<not> truthy peak_memory0 then
                (case map_of data ''outputStage'' of
                   None \<Rightarrow> Inr peak_memory0
                 | Some output_stage \<Rightarrow>
                     bindE (py_contains ''stageStats'' output_stage) (\<lambda>has_stage_stats.
                       if has_stage_stats then
                         bindE (py_subscript output_stage ''stageStats'') (\<lambda>stage_stats_v.
                         bindE (as_dict stage_stats_v) (\<lambda>stage_stats.
                           Inr (py_or (dict_get stage_stats ''peakUserMemoryReservation'')
                                      (dict_get stage_stats ''peakMemoryReservation''))))
                       else Inr peak_memory0))
              else Inr peak_memory0) (\<lambda>peak_memory.
       bindE (if truthy peak_memory then parse_memory_to_mb repr peak_memory
              else Inr (Finite 0)) (\<lambda>mb.
       bindE (parse_duration_to_seconds repr cpu_time) (\<lambda>cpu_sec.
       bindE (parse_duration_to_seconds repr elapsed_time) (\<lambda>elapsed_sec.
         Inr \<lparr> query_id = qid,
               state = dict_get_default data ''state'' (PStr ''UNKNOWN''),
               cpu_time_str = cpu_time,
               cpu_time_sec = cpu_sec,
               elapsed_time_str = elapsed_time,
               elapsed_time_sec = elapsed_sec,
               peak_memory_str = (if truthy peak_memory then peak_memory else PNone),
               peak_memory_mb = mb,
               physical_input_rows = input_rows,
               output_rows = output_rows,
               source = ''REST API'' \<rparr>))))))"

text \<open>
  \<^verbatim>\<open>get_query_stats_from_api\<close>. The query identifier is \<^verbatim>\<open>None\<close> or a string. The
  result is the record (or \<open>None\<close> for the empty dict) and the network after the call.
\<close>

definition get_query_stats_from_api ::
    "trino_config \<Rightarrow> (pyval \<Rightarrow> string) \<Rightarrow> string option \<Rightarrow> net \<Rightarrow> stats_record option \<times> net" where
  "get_query_stats_from_api cfg repr qid_opt w =
     (case qid_opt of
        None \<Rightarrow> (None, w)
      | Some qid \<Rightarrow>
          if qid = [] then (None, w)
          else if qid = ''unknown'' then (None, w)
          else
            (case requests_get (api_url cfg qid) [(''X-Trino-User'', user cfg)] w of
               (Raises, w') \<Rightarrow> (None, w')
             | (Response status_code body, w') \<Rightarrow>
                 if status_code = 200 then
                   (case body of
                      None \<Rightarrow> (None, w')
                    | Some data \<Rightarrow>
                        (case stats_from_response repr qid data of
                           Inl e \<Rightarrow> (None, w')
                         | Inr r \<Rightarrow> (Some r, w')))
                 else (None, w')))"

section \<open>Execution measurer\<close>

subsection \<open>Numbers of unknown type\<close>

text \<open>
  \<^verbatim>\<open>v > 0\<close> for a value read from JSON: defined on numbers and booleans; comparing
  anything else with an integer raises \<^verbatim>\<open>TypeError\<close>.
\<close>

definition py_gt0 :: "pyval \<Rightarrow> error + bool" where
  "py_gt0 v =
     (case v of
        PInt n \<Rightarrow> Inr (0 < n)
      | PFloat x \<Rightarrow> Inr (float_gt0 x)
      | PBool b \<Rightarrow> Inr b
      | _ \<Rightarrow> Inl TypeError)"

definition to_float :: "pyval \<Rightarrow> error + pyfloat" where
  "to_float v =
     (case v of
        PInt n \<Rightarrow> Inr (Finite (of_int n))
      | PFloat x \<Rightarrow> Inr x
      | PBool b \<Rightarrow> Inr (Finite (if b then 1 else 0))
      | _ \<Rightarrow> Inl TypeError)"

text \<open>Float division \<^verbatim>\<open>x / y\<close>; a zero divisor raises.\<close>

definition float_div :: "pyfloat \<Rightarrow> pyfloat \<Rightarrow> error + pyfloat" where
  "float_div x y =
     (case y of
        Finite b \<Rightarrow>
          if b = 0 then Inl ZeroDivisionError
          else (case x of
                  Finite a \<Rightarrow> Inr (Finite (a / b))
                | PosInf \<Rightarrow> Inr (if 0 < b then PosInf else NegInf)
                | NegInf \<Rightarrow> Inr (if 0 < b then NegInf else PosInf)
                | NaN \<Rightarrow> Inr NaN)
      | NaN \<Rightarrow> Inr NaN
      | _ \<Rightarrow> (case x of Finite a \<Rightarrow> Inr (Finite 0) | _ \<Rightarrow> Inr NaN))"

definition py_truediv :: "pyval \<Rightarrow> pyfloat \<Rightarrow> error + pyfloat" where
  "py_truediv v y = bindE (to_float v) (\<lambda>x. float_div x y)"

subsection \<open>One trial\<close>

text \<open>
  What the cursor does in one trial: \<^verbatim>\<open>execute\<close> raises (with a message); or it returns,
  the query identifier is read from the cursor (\<open>None\<close> when the attribute is missing or
  \<^verbatim>\<open>None\<close>), and \<^verbatim>\<open>fetchall\<close> raises or returns a number of rows. The two readings of the
  clock are part of the run.

  The record \<open>trial\<close> is the dict that the measurer returns; its keys \<^verbatim>\<open>peak_memory_mb\<close>
  and \<^verbatim>\<open>query_id\<close> are the fields \<open>trial_peak_memory_mb\<close> and \<open>trial_query_id\<close>, the
  plain names being fields of \<open>stats_record\<close>.
\<close>

datatype exec_outcome =
    ExecuteRaises string
  | FetchRaises "string option" string
  | Fetched "string option" nat

record cursor_run =
  start_time :: rat
  end_time :: rat
  outcome :: exec_outcome

record trial =
  runtime_sec :: pyfloat
  client_runtime_sec :: pyfloat
  rows_returned :: nat
  input_rows_processed :: pyval
  throughput_input_rows_per_sec :: pyfloat
  cpu_seconds :: "pyfloat option"
  trial_peak_memory_mb :: "pyfloat option"
  status :: string
  trial_query_id :: string
  stats_source :: string
  server_stats :: "stats_record option"

text \<open>The identifier, the row count and the status after the \<^verbatim>\<open>try\<close> block.\<close>

fun captured_query_id :: "exec_outcome \<Rightarrow> string option" where
  "captured_query_id (ExecuteRaises e) = None"
| "captured_query_id (FetchRaises q e) = q"
| "captured_query_id (Fetched q n) = q"

fun captured_row_count :: "exec_outcome \<Rightarrow> nat" where
  "captured_row_count (ExecuteRaises e) = 0"
| "captured_row_count (FetchRaises q e) = 0"
| "captured_row_count (Fetched q n) = n"

fun captured_status :: "exec_outcome \<Rightarrow> string" where
  "captured_status (ExecuteRaises e) = ''ERROR: '' @ e"
| "captured_status (FetchRaises q e) = ''ERROR: '' @ e"
| "captured_status (Fetched q n) = ''SUCCESS''"

text \<open>\<^verbatim>\<open>input_rows or 0\<close>, for the caller's row estimate (an integer or \<^verbatim>\<open>None\<close>).\<close>

definition baseline_rows :: "int option \<Rightarrow> pyval" where
  "baseline_rows input_rows =
     (case input_rows of None \<Rightarrow> PInt 0 | Some n \<Rightarrow> if n \<noteq> 0 then PInt n else PInt 0)"

text \<open>\<^verbatim>\<open>query_id or 'unavailable'\<close>.\<close>

definition query_id_or_unavailable :: "string option \<Rightarrow> string" where
  "query_id_or_unavailable q =
     (case q of None \<Rightarrow> ''unavailable'' | Some s \<Rightarrow> if s \<noteq> [] then s else ''unavailable'')"

text \<open>
  The reconciliation of \<^verbatim>\<open>measure_query_execution\<close> (the statement
  \<^verbatim>\<open>if server_stats: ... else: ...\<close>): CPU seconds, peak memory, processed rows, runtime
  and source tag. The dict returned by the extractor has all its keys when it is not
  empty, so the defaults of \<^verbatim>\<open>server_stats.get(key, default)\<close> are never used. The
  comparison of the server's row count with 0 is the one place that can raise.
\<close>

definition reconcile ::
    "stats_record option \<Rightarrow> pyfloat \<Rightarrow> int option \<Rightarrow>
     error + (pyfloat option \<times> pyfloat option \<times> pyval \<times> pyfloat \<times> string)" where
  "reconcile stats client_duration input_rows =
     (case stats of
        Some ss \<Rightarrow>
          bindE (let server_input_rows = physical_input_rows ss
                 in if truthy server_input_rows then
                      bindE (py_gt0 server_input_rows) (\<lambda>pos.
                        Inr (if pos then server_input_rows else baseline_rows input_rows))
                    else Inr (baseline_rows input_rows)) (\<lambda>processed_rows.
            let server_elapsed = elapsed_time_sec ss;
                runtime = (if float_gt0 server_elapsed then server_elapsed else client_duration);
                cpu = (if float_eq0 (cpu_time_sec ss) then None else Some (cpu_time_sec ss));
                mem = (if float_eq0 (peak_memory_mb ss) then None else Some (peak_memory_mb ss))
            in Inr (cpu, mem, processed_rows, runtime, source ss))
      | None \<Rightarrow>
          Inr (None, None, baseline_rows input_rows, client_duration, ''client-only''))"

text \<open>The throughput: input rows per second when both are positive, else 0.\<close>

definition throughput :: "pyval \<Rightarrow> pyfloat \<Rightarrow> error + pyfloat" where
  "throughput processed_rows runtime =
     (if truthy processed_rows then
        bindE (py_gt0 processed_rows) (\<lambda>pos.
          if pos \<and> float_gt0 runtime then py_truediv processed_rows runtime
          else Inr (Finite 0))
      else Inr (Finite 0))"

text \<open>
  \<^verbatim>\<open>measure_query_execution\<close>: the run of the cursor between the two clock readings, the
  call of the extractor, the reconciliation, the throughput, and the record returned.
\<close>

definition measure_query_execution ::
    "trino_config \<Rightarrow> (pyval \<Rightarrow> string) \<Rightarrow> cursor_run \<Rightarrow> int option \<Rightarrow> net \<Rightarrow> (error + trial) \<times> net" where
  "measure_query_execution cfg repr run input_rows w =
     (let qid = captured_query_id (outcome run);
          row_count = captured_row_count (outcome run);
          st = captured_status (outcome run);
          client_duration = Finite (end_time run - start_time run);
          (stats, w') = get_query_stats_from_api cfg repr qid w
      in
      (bindE (reconcile stats client_duration input_rows)
         (\<lambda>(cpu, mem, processed_rows, runtime, src).
            bindE (throughput processed_rows runtime) (\<lambda>throughput_input.
              Inr \<lparr> runtime_sec = runtime,
                    client_runtime_sec = client_duration,
                    rows_returned = row_count,
                    input_rows_processed = processed_rows,
                    throughput_input_rows_per_sec = throughput_input,
                    cpu_seconds = cpu,
                    trial_peak_memory_mb = mem,
                    status = st,
                    trial_query_id = query_id_or_unavailable qid,
                    stats_source = src,
                    server_stats = stats \<rparr>)),
       w'))"

section \<open>The CSV row of a trial\<close>


section \<open>Specification-level notions\<close>

text \<open>
  The definitions of this section follow the wording of the specification, not the code;
  the theorems below compare them with the code.
\<close>

subsection \<open>Unit tables\<close>


text \<open>The memory units, with the factor to megabytes.\<close>

definition memory_units :: "((string \<Rightarrow> bool) \<times> (string \<Rightarrow> string) \<times> rat) list" where
  "memory_units =
     [(str_in ''GB'', str_remove ''GB'', 1024),
      (str_in ''MB'', str_remove ''MB'', 1),
      (str_in ''KB'', str_remove ''KB'', 1 / 1024),
      (\<lambda>m. str_in ''B'' m \<and> \<not> str_in ''KB'' m \<and> \<not> str_in ''MB'' m, str_remove ''B'', 1 / 1024 ^ 2)]"

text \<open>
  Conversion by a unit table: the first unit whose test succeeds decides; its number is
  parsed and scaled. When no unit is recognized the whole text is parsed as a bare number
  and scaled by \<open>bare\<close>, and a text that is not a number gives 0.
\<close>

definition convert_by_priority ::
    "((string \<Rightarrow> bool) \<times> (string \<Rightarrow> string) \<times> rat) list \<Rightarrow> rat \<Rightarrow> string \<Rightarrow> error + pyfloat" where
  "convert_by_priority units bare d =
     (case find (\<lambda>(test, erase, c). test d) units of
        Some (test, erase, c) \<Rightarrow> bindE (py_float (erase d)) (\<lambda>x. Inr (float_scale c x))
      | None \<Rightarrow> (case py_float d of Inl e \<Rightarrow> Inr (Finite 0) | Inr x \<Rightarrow> Inr (float_scale bare x)))"

subsection \<open>Candidate field names\<close>

definition cpu_time_keys :: "string list" where
  "cpu_time_keys = [''totalCpuTime'', ''cpuTime'', ''totalCpuTimeMillis'']"

definition elapsed_time_keys :: "string list" where
  "elapsed_time_keys = [''elapsedTime'', ''executionTime'', ''elapsedTimeMillis'']"

definition peak_memory_keys :: "string list" where
  "peak_memory_keys =
     [''peakMemoryReservation'', ''peakUserMemoryReservation'', ''peakTotalMemoryReservation'',
      ''peakTaskUserMemory'', ''peakUserMemory'', ''peakTotalMemory'']"

definition stage_memory_keys :: "string list" where
  "stage_memory_keys = [''peakUserMemoryReservation'', ''peakMemoryReservation'']"

definition input_rows_keys :: "string list" where
  "input_rows_keys = [''physicalInputRows'', ''processedInputRows'', ''rawInputRows'', ''inputRows'']"

text \<open>
  Probing an ordered list of candidates: the values found under the candidate names, in
  order (\<open>PNone\<close> for a name that is absent), and the first of them that passes a test.
\<close>

definition candidates :: "(string \<times> pyval) list \<Rightarrow> string list \<Rightarrow> pyval list" where
  "candidates d ks = map (dict_get d) ks"

definition first_non_null :: "pyval list \<Rightarrow> pyval \<Rightarrow> pyval" where
  "first_non_null vs dflt = (case find (\<lambda>v. v \<noteq> PNone) vs of Some v \<Rightarrow> v | None \<Rightarrow> dflt)"

definition first_truthy :: "pyval list \<Rightarrow> pyval \<Rightarrow> pyval" where
  "first_truthy vs dflt = (case find truthy vs of Some v \<Rightarrow> v | None \<Rightarrow> dflt)"

text \<open>The peak memory found in the nested output stage of the response, if any.\<close>

definition stage_peak_memory :: "(string \<times> pyval) list \<Rightarrow> pyval" where
  "stage_peak_memory data =
     (case map_of data ''outputStage'' of
        Some (PDict output_stage) \<Rightarrow>
          (case map_of output_stage ''stageStats'' of
             Some (PDict stage_stats) \<Rightarrow> first_truthy (candidates stage_stats stage_memory_keys) PNone
           | _ \<Rightarrow> PNone)
      | _ \<Rightarrow> PNone)"

subsection \<open>Replies of the statistics endpoint\<close>

text \<open>The reply to the request that the extractor sends for a query identifier.\<close>

definition stats_reply :: "trino_config \<Rightarrow> net \<Rightarrow> string \<Rightarrow> http_reply" where
  "stats_reply cfg w qid = replies w (api_url cfg qid) [(''X-Trino-User'', user cfg)]"

text \<open>A network-level error, or a status other than 200.\<close>

fun failed_reply :: "http_reply \<Rightarrow> bool" where
  "failed_reply Raises = True"
| "failed_reply (Response status_code body) = (status_code \<noteq> 200)"

section \<open>Example data\<close>

definition example_cfg :: trino_config where
  "example_cfg = \<lparr> host = ''localhost'', port = 8080, user = ''admin'' \<rparr>"

definition example_repr :: "pyval \<Rightarrow> string" where
  "example_repr v = []"

text \<open>The response of the end-to-end example of the specification.\<close>

definition example_stats :: "(string \<times> pyval) list" where
  "example_stats =
     [(''totalCpuTime'', PStr ''2.5s''),
      (''elapsedTime'', PStr ''3.1s''),
      (''peakUserMemoryReservation'', PStr ''128MB''),
      (''physicalInputRows'', PInt 1000)]"

definition example_data :: "(string \<times> pyval) list" where
  "example_data = [(''state'', PStr ''FINISHED''), (''queryStats'', PDict example_stats)]"

definition net_answering :: "http_reply \<Rightarrow> net" where
  "net_answering r = \<lparr> replies = (\<lambda>url headers. r), sent = [] \<rparr>"

definition example_net :: net where
  "example_net = net_answering (Response 200 (Some (PDict example_data)))"

text \<open>A query that returns 5 rows in 3 seconds of client time.\<close>

definition example_run :: cursor_run where
  "example_run = \<lparr> start_time = 10, end_time = 13, outcome = Fetched (Some ''20240101_q1'') 5 \<rparr>"

text \<open>A response whose first input row count is a measured zero.\<close>

definition zero_rows_stats :: "(string \<times> pyval) list" where
  "zero_rows_stats = [(''physicalInputRows'', PInt 0), (''processedInputRows'', PInt 7)]"

definition zero_rows_net :: net where
  "zero_rows_net = net_answering (Response 200 (Some (PDict [(''queryStats'', PDict zero_rows_stats)])))"

text \<open>A response without any statistics, and an endpoint that asks for authentication.\<close>

definition bare_net :: net where
  "bare_net = net_answering (Response 200 (Some (PDict [(''state'', PStr ''FINISHED'')])))"

definition unauthorized_net :: net where
  "unauthorized_net = net_answering (Response 401 None)"

text \<open>A query whose execution fails before an identifier is assigned.\<close>

definition failing_run :: cursor_run where
  "failing_run = \<lparr> start_time = 10, end_time = 11, outcome = ExecuteRaises ''connection reset'' \<rparr>"

section \<open>Evaluation and basic facts\<close>

lemmas parser_defs =
  parse_duration_to_seconds_def parse_memory_to_mb_def strip_def rstrip_chars_def rstrip_def
  is_space_def lower_def lower_char_def upper_def upper_char_def endswith_def suffix_to_prefix
  bindE_def py_float_def absfloatvalue_def floatnumber_def mantissa_def exponent_def is_digit_def
  digits_val_def digit_val_def pow10_def

lemmas extractor_defs =
  get_query_stats_from_api_def requests_get_def stats_from_response_def as_dict_def
  dict_get_def dict_get_default_def py_or_def py_contains_def py_subscript_def

lemmas measurer_defs =
  reconcile_def throughput_def py_gt0_def to_float_def float_div_def py_truediv_def float_eq0_def
  baseline_rows_def query_id_or_unavailable_def

lemmas example_defs =
  example_cfg_def example_repr_def example_stats_def example_data_def net_answering_def
  example_net_def example_run_def zero_rows_stats_def zero_rows_net_def bare_net_def
  unauthorized_net_def failing_run_def

lemma bindE_Inr_iff: "bindE m f = Inr y \<longleftrightarrow> (\<exists>x. m = Inr x \<and> f x = Inr y)"
  by (cases m) (simp_all add: bindE_def)

lemma bindE_Inr [simp]: "bindE (Inr x) f = f x"
  by (simp add: bindE_def)

lemma bindE_Inl [simp]: "bindE (Inl e) f = Inl e"
  by (simp add: bindE_def)

subsection \<open>The measurer, field by field\<close>

lemma reconcile_fields:
  assumes "reconcile stats client input_rows = Inr (cpu, mem, processed, runtime, src)"
  shows "runtime = (case stats of
                      Some ss \<Rightarrow> if float_gt0 (elapsed_time_sec ss) then elapsed_time_sec ss else client
                    | None \<Rightarrow> client)"
    and "cpu = (case stats of
                  None \<Rightarrow> None
                | Some ss \<Rightarrow> if cpu_time_sec ss = Finite 0 then None else Some (cpu_time_sec ss))"
    and "mem = (case stats of
                  None \<Rightarrow> None
                | Some ss \<Rightarrow> if peak_memory_mb ss = Finite 0 then None else Some (peak_memory_mb ss))"
    and "src = (case stats of None \<Rightarrow> ''client-only'' | Some ss \<Rightarrow> source ss)"
proof -
  have "runtime = (case stats of
                      Some ss \<Rightarrow> if float_gt0 (elapsed_time_sec ss) then elapsed_time_sec ss else client
                    | None \<Rightarrow> client)
      \<and> cpu = (case stats of
                  None \<Rightarrow> None
                | Some ss \<Rightarrow> if cpu_time_sec ss = Finite 0 then None else Some (cpu_time_sec ss))
      \<and> mem = (case stats of
                  None \<Rightarrow> None
                | Some ss \<Rightarrow> if peak_memory_mb ss = Finite 0 then None else Some (peak_memory_mb ss))
      \<and> src = (case stats of None \<Rightarrow> ''client-only'' | Some ss \<Rightarrow> source ss)"
  proof (cases stats)
    case None
    with assms show ?thesis by (simp add: reconcile_def)
  next
    case (Some ss)
    with assms show ?thesis
      by (auto simp: reconcile_def bindE_Inr_iff Let_def float_eq0_def)
  qed
  then show "runtime = (case stats of
                      Some ss \<Rightarrow> if float_gt0 (elapsed_time_sec ss) then elapsed_time_sec ss else client
                    | None \<Rightarrow> client)"
    and "cpu = (case stats of
                  None \<Rightarrow> None
                | Some ss \<Rightarrow> if cpu_time_sec ss = Finite 0 then None else Some (cpu_time_sec ss))"
    and "mem = (case stats of
                  None \<Rightarrow> None
                | Some ss \<Rightarrow> if peak_memory_mb ss = Finite 0 then None else Some (peak_memory_mb ss))"
    and "src = (case stats of None \<Rightarrow> ''client-only'' | Some ss \<Rightarrow> source ss)"
    by simp_all
qed

text \<open>A trial that is returned is assembled from the reconciled values.\<close>

lemma measure_returns:
  assumes "fst (measure_query_execution cfg repr run input_rows w) = Inr t"
  obtains cpu mem processed runtime src thr where
    "reconcile (fst (get_query_stats_from_api cfg repr (captured_query_id (outcome run)) w))
       (Finite (end_time run - start_time run)) input_rows = Inr (cpu, mem, processed, runtime, src)"
    and "throughput processed runtime = Inr thr"
    and "t = \<lparr> runtime_sec = runtime,
               client_runtime_sec = Finite (end_time run - start_time run),
               rows_returned = captured_row_count (outcome run),
               input_rows_processed = processed,
               throughput_input_rows_per_sec = thr,
               cpu_seconds = cpu,
               trial_peak_memory_mb = mem,
               status = captured_status (outcome run),
               trial_query_id = query_id_or_unavailable (captured_query_id (outcome run)),
               stats_source = src,
               server_stats = fst (get_query_stats_from_api cfg repr (captured_query_id (outcome run)) w) \<rparr>"
  using assms
  unfolding measure_query_execution_def Let_def split_beta fst_conv bindE_Inr_iff
  by auto

lemma measure_fields:
  assumes "fst (measure_query_execution cfg repr run input_rows w) = Inr t"
  shows "runtime_sec t =
           (case fst (get_query_stats_from_api cfg repr (captured_query_id (outcome run)) w) of
              Some ss \<Rightarrow> if float_gt0 (elapsed_time_sec ss) then elapsed_time_sec ss
                         else Finite (end_time run - start_time run)
            | None \<Rightarrow> Finite (end_time run - start_time run))"
    and "client_runtime_sec t = Finite (end_time run - start_time run)"
    and "cpu_seconds t =
           (case fst (get_query_stats_from_api cfg repr (captured_query_id (outcome run)) w) of
              None \<Rightarrow> None
            | Some ss \<Rightarrow> if cpu_time_sec ss = Finite 0 then None else Some (cpu_time_sec ss))"
    and "trial_peak_memory_mb t =
           (case fst (get_query_stats_from_api cfg repr (captured_query_id (outcome run)) w) of
              None \<Rightarrow> None
            | Some ss \<Rightarrow> if peak_memory_mb ss = Finite 0 then None else Some (peak_memory_mb ss))"
    and "trial_query_id t = query_id_or_unavailable (captured_query_id (outcome run))"
    and "stats_source t =
           (case fst (get_query_stats_from_api cfg repr (captured_query_id (outcome run)) w) of
              None \<Rightarrow> ''client-only'' | Some ss \<Rightarrow> source ss)"
    and "server_stats t = fst (get_query_stats_from_api cfg repr (captured_query_id (outcome run)) w)"
proof -
  from assms obtain cpu mem processed runtime src thr where
    r: "reconcile (fst (get_query_stats_from_api cfg repr (captured_query_id (outcome run)) w))
          (Finite (end_time run - start_time run)) input_rows = Inr (cpu, mem, processed, runtime, src)"
    and t: "t = \<lparr> runtime_sec = runtime,
               client_runtime_sec = Finite (end_time run - start_time run),
               rows_returned = captured_row_count (outcome run),
               input_rows_processed = processed,
               throughput_input_rows_per_sec = thr,
               cpu_seconds = cpu,
               trial_peak_memory_mb = mem,
               status = captured_status (outcome run),
               trial_query_id = query_id_or_unavailable (captured_query_id (outcome run)),
               stats_source = src,
               server_stats = fst (get_query_stats_from_api cfg repr (captured_query_id (outcome run)) w) \<rparr>"
    by (rule measure_returns)
  show "runtime_sec t =
           (case fst (get_query_stats_from_api cfg repr (captured_query_id (outcome run)) w) of
              Some ss \<Rightarrow> if float_gt0 (elapsed_time_sec ss) then elapsed_time_sec ss
                         else Finite (end_time run - start_time run)
            | None \<Rightarrow> Finite (end_time run - start_time run))"
    using reconcile_fields(1) [OF r] by (simp add: t)
  show "client_runtime_sec t = Finite (end_time run - start_time run)"
    by (simp add: t)
  show "cpu_seconds t =
           (case fst (get_query_stats_from_api cfg repr (captured_query_id (outcome run)) w) of
              None \<Rightarrow> None
            | Some ss \<Rightarrow> if cpu_time_sec ss = Finite 0 then None else Some (cpu_time_sec ss))"
    using reconcile_fields(2) [OF r] by (simp add: t)
  show "trial_peak_memory_mb t =
           (case fst (get_query_stats_from_api cfg repr (captured_query_id (outcome run)) w) of
              None \<Rightarrow> None
            | Some ss \<Rightarrow> if peak_memory_mb ss = Finite 0 then None else Some (peak_memory_mb ss))"
    using reconcile_fields(3) [OF r] by (simp add: t)
  show "trial_query_id t = query_id_or_unavailable (captured_query_id (outcome run))"
    by (simp add: t)
  show "stats_source t =
           (case fst (get_query_stats_from_api cfg repr (captured_query_id (outcome run)) w) of
              None \<Rightarrow> ''client-only'' | Some ss \<Rightarrow> source ss)"
    using reconcile_fields(4) [OF r] by (simp add: t)
  show "server_stats t = fst (get_query_stats_from_api cfg repr (captured_query_id (outcome run)) w)"
    by (simp add: t)
qed

text \<open>Without server statistics the measurer cannot raise.\<close>

lemma throughput_baseline: "\<exists>thr. throughput (baseline_rows input_rows) runtime = Inr thr"
proof (cases "float_gt0 runtime")
  case False
  then show ?thesis
    by (simp add: throughput_def baseline_rows_def py_gt0_def split: option.splits)
next
  case True
  then have "\<exists>thr. float_div (Finite q) runtime = Inr thr" for q
    by (cases runtime) (auto simp: float_div_def)
  then show ?thesis
    by (simp add: throughput_def baseline_rows_def py_gt0_def py_truediv_def to_float_def
             split: option.splits)
qed

lemma measure_without_stats:
  assumes "fst (get_query_stats_from_api cfg repr (captured_query_id (outcome run)) w) = None"
  shows "\<exists>thr. fst (measure_query_execution cfg repr run input_rows w) =
     Inr \<lparr> runtime_sec = Finite (end_time run - start_time run),
           client_runtime_sec = Finite (end_time run - start_time run),
           rows_returned = captured_row_count (outcome run),
           input_rows_processed = baseline_rows input_rows,
           throughput_input_rows_per_sec = thr,
           cpu_seconds = None,
           trial_peak_memory_mb = None,
           status = captured_status (outcome run),
           trial_query_id = query_id_or_unavailable (captured_query_id (outcome run)),
           stats_source = ''client-only'',
           server_stats = None \<rparr>"
proof -
  obtain thr where "throughput (baseline_rows input_rows) (Finite (end_time run - start_time run)) = Inr thr"
    using throughput_baseline by blast
  with assms show ?thesis
    by (simp add: measure_query_execution_def Let_def split_beta reconcile_def)
qed

subsection \<open>The extractor\<close>

lemma extractor_source:
  assumes "fst (get_query_stats_from_api cfg repr qid w) = Some ss"
  shows "source ss = ''REST API''"
proof -
  from assms obtain q data where "stats_from_response repr q data = Inr ss"
    unfolding get_query_stats_from_api_def requests_get_def
    by (auto split: option.splits if_splits http_reply.splits sum.splits)
  then show ?thesis
    unfolding stats_from_response_def Let_def bindE_Inr_iff by auto
qed

lemma extractor_failed_reply:
  assumes "failed_reply (stats_reply cfg w qid)"
  shows "fst (get_query_stats_from_api cfg repr (Some qid) w) = None"
  using assms unfolding get_query_stats_from_api_def requests_get_def stats_reply_def
  by (cases "replies w (api_url cfg qid) [(''X-Trino-User'', user cfg)]") auto

subsection \<open>The examples, evaluated\<close>

lemma example_extract:
  "fst (get_query_stats_from_api example_cfg example_repr (Some ''20240101_q1'') example_net) =
     Some \<lparr> query_id = ''20240101_q1'', state = PStr ''FINISHED'',
            cpu_time_str = PStr ''2.5s'', cpu_time_sec = Finite (5 / 2),
            elapsed_time_str = PStr ''3.1s'', elapsed_time_sec = Finite (31 / 10),
            peak_memory_str = PStr ''128MB'', peak_memory_mb = Finite 128,
            physical_input_rows = PInt 1000, output_rows = PInt 0,
            source = ''REST API'' \<rparr>"
  by (simp add: extractor_defs example_defs parser_defs)

lemma example_measure:
  "fst (measure_query_execution example_cfg example_repr example_run (Some 5000) example_net) =
     Inr \<lparr> runtime_sec = Finite (31 / 10), client_runtime_sec = Finite 3, rows_returned = 5,
           input_rows_processed = PInt 1000, throughput_input_rows_per_sec = Finite (10000 / 31),
           cpu_seconds = Some (Finite (5 / 2)), trial_peak_memory_mb = Some (Finite 128),
           status = ''SUCCESS'', trial_query_id = ''20240101_q1'', stats_source = ''REST API'',
           server_stats =
             fst (get_query_stats_from_api example_cfg example_repr (Some ''20240101_q1'') example_net) \<rparr>"
  by (simp add: measure_query_execution_def example_extract example_run_def split_beta measurer_defs)

lemma bare_extract:
  "fst (get_query_stats_from_api example_cfg example_repr (Some ''20240101_q1'') bare_net) =
     Some \<lparr> query_id = ''20240101_q1'', state = PStr ''FINISHED'',
            cpu_time_str = PStr ''0ms'', cpu_time_sec = Finite 0,
            elapsed_time_str = PStr ''0ms'', elapsed_time_sec = Finite 0,
            peak_memory_str = PNone, peak_memory_mb = Finite 0,
            physical_input_rows = PInt 0, output_rows = PInt 0,
            source = ''REST API'' \<rparr>"
  by (simp add: extractor_defs example_defs parser_defs Let_def)

lemma bare_measure:
  "fst (measure_query_execution example_cfg example_repr example_run (Some 5000) bare_net) =
     Inr \<lparr> runtime_sec = Finite 3, client_runtime_sec = Finite 3, rows_returned = 5,
           input_rows_processed = PInt 5000, throughput_input_rows_per_sec = Finite (5000 / 3),
           cpu_seconds = None, trial_peak_memory_mb = None,
           status = ''SUCCESS'', trial_query_id = ''20240101_q1'', stats_source = ''REST API'',
           server_stats =
             fst (get_query_stats_from_api example_cfg example_repr (Some ''20240101_q1'') bare_net) \<rparr>"
  by (simp add: measure_query_execution_def bare_extract example_run_def split_beta measurer_defs Let_def)

lemma failing_measure:
  "fst (measure_query_execution example_cfg example_repr failing_run None example_net) =
     Inr \<lparr> runtime_sec = Finite 1, client_runtime_sec = Finite 1, rows_returned = 0,
           input_rows_processed = PInt 0, throughput_input_rows_per_sec = Finite 0,
           cpu_seconds = None, trial_peak_memory_mb = None,
           status = ''ERROR: connection reset'', trial_query_id = ''unavailable'',
           stats_source = ''client-only'', server_stats = None \<rparr>"
  by (simp add: measure_query_execution_def get_query_stats_from_api_def failing_run_def
        split_beta measurer_defs Let_def)

subsection \<open>Strings made of a number and a unit\<close>

lemma float_scale_one: "float_scale 1 x = x"
  by (cases x) simp_all

lemma bindE_scale_one: "bindE m (\<lambda>x. Inr (float_scale 1 x)) = m"
  by (cases m) (simp_all add: float_scale_one)

lemma bindE_return: "bindE m Inr = m"
  by (cases m) simp_all




lemma str_in_subset: "str_in sub s \<Longrightarrow> set sub \<subseteq> set s"
proof (induction s)
  case Nil
  then show ?case by simp
next
  case (Cons c cs)
  then show ?case
    using set_mono_prefix [of sub "c # cs"] by auto
qed

lemma not_str_in: "c \<in> set sub \<Longrightarrow> c \<notin> set s \<Longrightarrow> \<not> str_in sub s"
  using str_in_subset by blast

lemma str_in_append: "str_in sub (n @ sub)"
proof (induction n)
  case Nil
  then show ?case by (cases sub) simp_all
next
  case (Cons c cs)
  then show ?case by simp
qed

lemma str_remove_unit:
  assumes "old \<noteq> []" and "hd old \<notin> set n"
  shows "str_remove old (n @ old) = n"
  using assms(2)
proof (induction n)
  case Nil
  from assms(1) obtain c cs where "old = c # cs" by (cases old) auto
  then show ?case by simp
next
  case (Cons a n)
  from assms(1) obtain c cs where old: "old = c # cs" by (cases old) auto
  with Cons.prems have "a \<noteq> c" by auto
  then have "\<not> prefix old ((a # n) @ old)" by (simp add: old)
  with Cons show ?case by simp
qed


text \<open>What a text of digits and points does not contain, and what leaves it unchanged.\<close>

lemma numeral_char:
  assumes "c \<in> set ''0123456789.''"
  shows "\<not> is_space c \<and> lower_char c = c \<and> upper_char c = c \<and> c \<notin> set ''nsmuGBMK''"
proof -
  from assms have "c = CHR ''0'' \<or> c = CHR ''1'' \<or> c = CHR ''2'' \<or> c = CHR ''3'' \<or> c = CHR ''4''
      \<or> c = CHR ''5'' \<or> c = CHR ''6'' \<or> c = CHR ''7'' \<or> c = CHR ''8'' \<or> c = CHR ''9'' \<or> c = CHR ''.''"
    by simp
  then show ?thesis
    by (elim disjE) (simp_all add: is_space_def lower_char_def upper_char_def)
qed

lemma numeral_text:
  assumes "set n \<subseteq> set ''0123456789.''"
  shows "\<forall>c \<in> set n. \<not> is_space c"
    and "lower n = n"
    and "upper n = n"
    and "CHR ''n'' \<notin> set n" and "CHR ''s'' \<notin> set n" and "CHR ''m'' \<notin> set n" and "CHR ''u'' \<notin> set n"
    and "CHR ''G'' \<notin> set n" and "CHR ''B'' \<notin> set n" and "CHR ''M'' \<notin> set n" and "CHR ''K'' \<notin> set n"
proof -
  have ch: "\<not> is_space c \<and> lower_char c = c \<and> upper_char c = c \<and> c \<notin> set ''nsmuGBMK''"
    if "c \<in> set n" for c
    using that assms by (intro numeral_char) blast
  show "\<forall>c \<in> set n. \<not> is_space c"
    using ch by blast
  show "lower n = n"
    unfolding lower_def by (rule map_idI) (use ch in blast)
  show "upper n = n"
    unfolding upper_def by (rule map_idI) (use ch in blast)
  have out: "c \<notin> set n" if "c \<in> set ''nsmuGBMK''" for c
    using ch that by blast
  show "CHR ''n'' \<notin> set n" and "CHR ''s'' \<notin> set n" and "CHR ''m'' \<notin> set n" and "CHR ''u'' \<notin> set n"
    and "CHR ''G'' \<notin> set n" and "CHR ''B'' \<notin> set n" and "CHR ''M'' \<notin> set n" and "CHR ''K'' \<notin> set n"
    by (rule out, simp)+
qed

lemma py_float_nonempty: "py_float n = Inr x \<Longrightarrow> n \<noteq> []"
  by (auto simp: py_float_def strip_def rstrip_chars_def)

subsection \<open>The parsers against the unit tables\<close>


lemma parse_memory_by_priority:
  "parse_memory_to_mb repr v =
     (if \<not> truthy v then Inr (Finite 0)
      else convert_by_priority memory_units (1 / 1024 ^ 2) (upper (str_of repr v)))"
  by (simp add: parse_memory_to_mb_def convert_by_priority_def memory_units_def Let_def
        bindE_scale_one bindE_return cong: sum.case_cong)


lemma parse_memory_number_unit:
  assumes "set n \<subseteq> set ''0123456789.''" and "py_float n = Inr x"
  shows "parse_memory_to_mb repr (PStr (n @ ''GB'')) = Inr (float_scale 1024 x)"
    and "parse_memory_to_mb repr (PStr (n @ ''MB'')) = Inr x"
    and "parse_memory_to_mb repr (PStr (n @ ''KB'')) = Inr (float_scale (1 / 1024) x)"
    and "parse_memory_to_mb repr (PStr (n @ ''B'')) = Inr (float_scale (1 / 1024 ^ 2) x)"
    and "parse_memory_to_mb repr (PStr n) = Inr (float_scale (1 / 1024 ^ 2) x)"
proof -
  note t = numeral_text [OF assms(1)]
  have ne: "n \<noteq> []" using assms(2) by (rule py_float_nonempty)
  have up: "upper (n @ u) = n @ u" if "upper u = u" for u
    using t(3) that by (simp add: upper_def)
  have u_gb: "upper (n @ ''GB'') = n @ ''GB''"
    by (rule up) (simp add: upper_def upper_char_def)
  have u_mb: "upper (n @ ''MB'') = n @ ''MB''"
    by (rule up) (simp add: upper_def upper_char_def)
  have u_kb: "upper (n @ ''KB'') = n @ ''KB''"
    by (rule up) (simp add: upper_def upper_char_def)
  have u_b: "upper (n @ ''B'') = n @ ''B''"
    by (rule up) (simp add: upper_def upper_char_def)
  show "parse_memory_to_mb repr (PStr (n @ ''GB'')) = Inr (float_scale 1024 x)"
    using str_in_append [of "''GB''" n] str_remove_unit [of "''GB''" n] t(8) assms(2)
    by (simp add: parse_memory_to_mb_def u_gb)
  have no_gb: "\<not> str_in ''GB'' (n @ u)" if "CHR ''G'' \<notin> set u" for u
    by (rule not_str_in [of "CHR ''G''"]) (use t(8) that in simp_all)
  have no_mb: "\<not> str_in ''MB'' (n @ u)" if "CHR ''M'' \<notin> set u" for u
    by (rule not_str_in [of "CHR ''M''"]) (use t(10) that in simp_all)
  have no_kb: "\<not> str_in ''KB'' (n @ u)" if "CHR ''K'' \<notin> set u" for u
    by (rule not_str_in [of "CHR ''K''"]) (use t(11) that in simp_all)
  have no_b: "\<not> str_in ''B'' n"
    by (rule not_str_in [of "CHR ''B''"]) (use t(9) in simp_all)
  show "parse_memory_to_mb repr (PStr (n @ ''MB'')) = Inr x"
    using no_gb [of "''MB''"] str_in_append [of "''MB''" n] str_remove_unit [of "''MB''" n] t(10) assms(2)
    by (simp add: parse_memory_to_mb_def u_mb)
  show "parse_memory_to_mb repr (PStr (n @ ''KB'')) = Inr (float_scale (1 / 1024) x)"
    using no_gb [of "''KB''"] no_mb [of "''KB''"] str_in_append [of "''KB''" n]
      str_remove_unit [of "''KB''" n] t(11) assms(2)
    by (simp add: parse_memory_to_mb_def u_kb)
  show "parse_memory_to_mb repr (PStr (n @ ''B'')) = Inr (float_scale (1 / 1024 ^ 2) x)"
    using no_gb [of "''B''"] no_mb [of "''B''"] no_kb [of "''B''"] str_in_append [of "''B''" n]
      str_remove_unit [of "''B''" n] t(9) assms(2)
    by (simp add: parse_memory_to_mb_def u_b)
  show "parse_memory_to_mb repr (PStr n) = Inr (float_scale (1 / 1024 ^ 2) x)"
    using no_gb [of "[]"] no_mb [of "[]"] no_kb [of "[]"] no_b ne assms(2)
    by (simp add: parse_memory_to_mb_def t(3))
qed

subsection \<open>Probing the candidate fields\<close>

lemma zero_ms: "parse_duration_to_seconds repr (PStr ''0ms'') = Inr (Finite 0)"
  by (simp add: parser_defs)

lemma or_chain3: "py_or a (py_or b (py_or c d)) = first_truthy [a, b, c] d"
  by (simp add: first_truthy_def py_or_def)

lemma or_chain4: "py_or a (py_or b (py_or c (py_or d e))) = first_truthy [a, b, c, d] e"
  by (simp add: first_truthy_def py_or_def)

lemma or_chain6:
  "(let m = py_or a (py_or b (py_or c (py_or d (py_or e f)))) in if truthy m then m else PNone)
     = first_truthy [a, b, c, d, e, f] PNone"
  by (simp add: first_truthy_def py_or_def)

lemma or_chain6_truthy:
  "truthy (py_or a (py_or b (py_or c (py_or d (py_or e f)))))
     = truthy (first_truthy [a, b, c, d, e, f] PNone)"
  by (simp add: first_truthy_def py_or_def)

text \<open>The peak memory that the extractor settles on, before it is parsed.\<close>

lemma stage_fallback:
  assumes "(case map_of data ''outputStage'' of
              None \<Rightarrow> Inr m0
            | Some output_stage \<Rightarrow>
                bindE (py_contains ''stageStats'' output_stage) (\<lambda>has_stage_stats.
                  if has_stage_stats then
                    bindE (py_subscript output_stage ''stageStats'') (\<lambda>stage_stats_v.
                    bindE (as_dict stage_stats_v) (\<lambda>stage_stats.
                      Inr (py_or (dict_get stage_stats ''peakUserMemoryReservation'')
                                 (dict_get stage_stats ''peakMemoryReservation''))))
                  else Inr m0)) = Inr m"
      and "\<not> truthy m0"
  shows "(if truthy m then m else PNone) = stage_peak_memory data"
proof (cases "map_of data ''outputStage''")
  case None
  with assms show ?thesis by (simp add: stage_peak_memory_def)
next
  case (Some output_stage)
  note os = this
  from assms(1) os obtain has where
    has: "py_contains ''stageStats'' output_stage = Inr has"
    and rest: "(if has then
                  bindE (py_subscript output_stage ''stageStats'') (\<lambda>stage_stats_v.
                  bindE (as_dict stage_stats_v) (\<lambda>stage_stats.
                    Inr (py_or (dict_get stage_stats ''peakUserMemoryReservation'')
                               (dict_get stage_stats ''peakMemoryReservation''))))
                else Inr m0) = Inr m"
    by (auto simp: bindE_Inr_iff)
  show ?thesis
  proof (cases has)
    case False
    with rest have m: "m = m0" by simp
    have "stage_peak_memory data = PNone"
    proof (cases output_stage)
      case (PDict d)
      with has False have "''stageStats'' \<notin> fst ` set d"
        by (simp add: py_contains_def)
      then have "map_of d ''stageStats'' = None"
        by (simp add: map_of_eq_None_iff)
      with os PDict show ?thesis by (simp add: stage_peak_memory_def)
    qed (use os in \<open>simp_all add: stage_peak_memory_def\<close>)
    with m assms(2) show ?thesis by simp
  next
    case True
    with rest obtain v stage_stats where
      sub: "py_subscript output_stage ''stageStats'' = Inr v"
      and dict: "as_dict v = Inr stage_stats"
      and m: "m = py_or (dict_get stage_stats ''peakUserMemoryReservation'')
                        (dict_get stage_stats ''peakMemoryReservation'')"
      by (auto simp: bindE_Inr_iff)
    from sub obtain d where d: "output_stage = PDict d" and v: "map_of d ''stageStats'' = Some v"
      by (cases output_stage) (auto simp: py_subscript_def split: option.splits)
    from dict have v': "v = PDict stage_stats"
      by (cases v) (simp_all add: as_dict_def)
    have "stage_peak_memory data =
            first_truthy [dict_get stage_stats ''peakUserMemoryReservation'',
                          dict_get stage_stats ''peakMemoryReservation''] PNone"
      using os d v v' by (simp add: stage_peak_memory_def candidates_def stage_memory_keys_def)
    then show ?thesis
      by (simp add: m first_truthy_def py_or_def)
  qed
qed

lemma stats_from_response_probes:
  assumes "stats_from_response repr qid (PDict data) = Inr ss"
      and "dict_get_default data ''queryStats'' (PDict []) = PDict stats"
  shows "cpu_time_str ss = first_truthy (candidates stats cpu_time_keys) (PStr ''0ms'')"
    and "elapsed_time_str ss = first_truthy (candidates stats elapsed_time_keys) (PStr ''0ms'')"
    and "physical_input_rows ss = first_truthy (candidates stats input_rows_keys) (PInt 0)"
    and "peak_memory_str ss =
           (if truthy (first_truthy (candidates stats peak_memory_keys) PNone)
            then first_truthy (candidates stats peak_memory_keys) PNone
            else stage_peak_memory data)"
proof -
  let ?m0 = "py_or (dict_get stats ''peakMemoryReservation'')
            (py_or (dict_get stats ''peakUserMemoryReservation'')
            (py_or (dict_get stats ''peakTotalMemoryReservation'')
            (py_or (dict_get stats ''peakTaskUserMemory'')
            (py_or (dict_get stats ''peakUserMemory'')
                   (dict_get stats ''peakTotalMemory'')))))"
  from assms obtain m mb cpu_sec elapsed_sec where
    m: "(if \<not> truthy ?m0 then
           (case map_of data ''outputStage'' of
              None \<Rightarrow> Inr ?m0
            | Some output_stage \<Rightarrow>
                bindE (py_contains ''stageStats'' output_stage) (\<lambda>has_stage_stats.
                  if has_stage_stats then
                    bindE (py_subscript output_stage ''stageStats'') (\<lambda>stage_stats_v.
                    bindE (as_dict stage_stats_v) (\<lambda>stage_stats.
                      Inr (py_or (dict_get stage_stats ''peakUserMemoryReservation'')
                                 (dict_get stage_stats ''peakMemoryReservation''))))
                  else Inr ?m0))
         else Inr ?m0) = Inr m"
    and ss: "ss = \<lparr> query_id = qid,
               state = dict_get_default data ''state'' (PStr ''UNKNOWN''),
               cpu_time_str =
                 py_or (dict_get stats ''totalCpuTime'')
                (py_or (dict_get stats ''cpuTime'')
                (py_or (dict_get stats ''totalCpuTimeMillis'') (PStr ''0ms''))),
               cpu_time_sec = cpu_sec,
               elapsed_time_str =
                 py_or (dict_get stats ''elapsedTime'')
                (py_or (dict_get stats ''executionTime'')
                (py_or (dict_get stats ''elapsedTimeMillis'') (PStr ''0ms''))),
               elapsed_time_sec = elapsed_sec,
               peak_memory_str = (if truthy m then m else PNone),
               peak_memory_mb = mb,
               physical_input_rows =
                 py_or (dict_get stats ''physicalInputRows'')
                (py_or (dict_get stats ''processedInputRows'')
                (py_or (dict_get stats ''rawInputRows'')
                (py_or (dict_get stats ''inputRows'') (PInt 0)))),
               output_rows =
                 py_or (dict_get stats ''outputRows'')
                (py_or (dict_get stats ''completedRows'') (PInt 0)),
               source = ''REST API'' \<rparr>"
    unfolding stats_from_response_def Let_def bindE_Inr_iff as_dict_def
    by auto
  show "cpu_time_str ss = first_truthy (candidates stats cpu_time_keys) (PStr ''0ms'')"
    by (simp add: ss or_chain3 candidates_def cpu_time_keys_def)
  show "elapsed_time_str ss = first_truthy (candidates stats elapsed_time_keys) (PStr ''0ms'')"
    by (simp add: ss or_chain3 candidates_def elapsed_time_keys_def)
  show "physical_input_rows ss = first_truthy (candidates stats input_rows_keys) (PInt 0)"
    by (simp add: ss or_chain4 candidates_def input_rows_keys_def)
  have top: "candidates stats peak_memory_keys =
               [dict_get stats ''peakMemoryReservation'', dict_get stats ''peakUserMemoryReservation'',
                dict_get stats ''peakTotalMemoryReservation'', dict_get stats ''peakTaskUserMemory'',
                dict_get stats ''peakUserMemory'', dict_get stats ''peakTotalMemory'']"
    by (simp add: candidates_def peak_memory_keys_def)
  show "peak_memory_str ss =
           (if truthy (first_truthy (candidates stats peak_memory_keys) PNone)
            then first_truthy (candidates stats peak_memory_keys) PNone
            else stage_peak_memory data)"
  proof (cases "truthy ?m0")
    case True
    with m have "m = ?m0" by simp
    moreover have "truthy (first_truthy (candidates stats peak_memory_keys) PNone)"
      using True unfolding top or_chain6_truthy [symmetric] .
    moreover have "(if truthy ?m0 then ?m0 else PNone) = first_truthy (candidates stats peak_memory_keys) PNone"
      unfolding top or_chain6 [symmetric] Let_def ..
    ultimately show ?thesis using True by (simp add: ss)
  next
    case False
    then have "\<not> truthy (first_truthy (candidates stats peak_memory_keys) PNone)"
      unfolding top or_chain6_truthy [symmetric] .
    moreover from m False have "(if truthy m then m else PNone) = stage_peak_memory data"
      by (intro stage_fallback [where ?m0.0 = ?m0]) simp_all
    ultimately show ?thesis by (simp add: ss)
  qed
qed

lemma extractor_ok_reply:
  assumes "fst (get_query_stats_from_api cfg repr (Some qid) w) = Some ss"
      and "stats_reply cfg w qid = Response 200 (Some data_v)"
  shows "stats_from_response repr qid data_v = Inr ss"
  using assms unfolding get_query_stats_from_api_def requests_get_def stats_reply_def
  by (auto split: if_splits sum.splits)

text \<open>A response that has none of the candidate fields.\<close>

lemma stats_without_fields:
  assumes "dict_get_default data ''queryStats'' (PDict []) = PDict stats"
      and "\<forall>k \<in> set (cpu_time_keys @ elapsed_time_keys @ peak_memory_keys @ input_rows_keys).
             map_of stats k = None"
      and "map_of data ''outputStage'' = None"
  shows "stats_from_response repr qid (PDict data) =
           Inr \<lparr> query_id = qid,
                 state = dict_get_default data ''state'' (PStr ''UNKNOWN''),
                 cpu_time_str = PStr ''0ms'', cpu_time_sec = Finite 0,
                 elapsed_time_str = PStr ''0ms'', elapsed_time_sec = Finite 0,
                 peak_memory_str = PNone, peak_memory_mb = Finite 0,
                 physical_input_rows = PInt 0,
                 output_rows = py_or (dict_get stats ''outputRows'')
                                     (py_or (dict_get stats ''completedRows'') (PInt 0)),
                 source = ''REST API'' \<rparr>"
proof -
  from assms(2) have absent:
    "dict_get stats ''totalCpuTime'' = PNone" "dict_get stats ''cpuTime'' = PNone"
    "dict_get stats ''totalCpuTimeMillis'' = PNone"
    "dict_get stats ''elapsedTime'' = PNone" "dict_get stats ''executionTime'' = PNone"
    "dict_get stats ''elapsedTimeMillis'' = PNone"
    "dict_get stats ''peakMemoryReservation'' = PNone"
    "dict_get stats ''peakUserMemoryReservation'' = PNone"
    "dict_get stats ''peakTotalMemoryReservation'' = PNone"
    "dict_get stats ''peakTaskUserMemory'' = PNone"
    "dict_get stats ''peakUserMemory'' = PNone" "dict_get stats ''peakTotalMemory'' = PNone"
    "dict_get stats ''physicalInputRows'' = PNone" "dict_get stats ''processedInputRows'' = PNone"
    "dict_get stats ''rawInputRows'' = PNone" "dict_get stats ''inputRows'' = PNone"
    by (simp_all add: dict_get_def dict_get_default_def cpu_time_keys_def elapsed_time_keys_def
          peak_memory_keys_def input_rows_keys_def)
  have or_none: "py_or PNone x = x" for x
    by (simp add: py_or_def)
  show ?thesis
    unfolding stats_from_response_def
    by (simp add: as_dict_def assms(1,3) absent or_none zero_ms Let_def)
qed

lemma measure_with_empty_stats:
  assumes "fst (get_query_stats_from_api cfg repr (captured_query_id (outcome run)) w) = Some ss"
      and "physical_input_rows ss = PInt 0"
      and "elapsed_time_sec ss = Finite 0"
      and "cpu_time_sec ss = Finite 0"
      and "peak_memory_mb ss = Finite 0"
      and "source ss = ''REST API''"
  shows "\<exists>thr. fst (measure_query_execution cfg repr run input_rows w) =
     Inr \<lparr> runtime_sec = Finite (end_time run - start_time run),
           client_runtime_sec = Finite (end_time run - start_time run),
           rows_returned = captured_row_count (outcome run),
           input_rows_processed = baseline_rows input_rows,
           throughput_input_rows_per_sec = thr,
           cpu_seconds = None,
           trial_peak_memory_mb = None,
           status = captured_status (outcome run),
           trial_query_id = query_id_or_unavailable (captured_query_id (outcome run)),
           stats_source = ''REST API'',
           server_stats = Some ss \<rparr>"
proof -
  obtain thr where "throughput (baseline_rows input_rows) (Finite (end_time run - start_time run)) = Inr thr"
    using throughput_baseline by blast
  with assms show ?thesis
    by (simp add: measure_query_execution_def Let_def split_beta reconcile_def float_eq0_def)
qed

section \<open>The claims\<close>

text \<open>
  Claim C1. In every trial the measurer returns, \<open>runtime_sec\<close> is the elapsed seconds of
  the extractor's record when the extractor returned a record and that value is greater
  than 0, and the client's wall-clock duration (end time minus start time) in every other
  case; the field always holds one of the two, and the case distinction says which.
\<close>

theorem runtime_sec_source:
  assumes "fst (measure_query_execution cfg repr run input_rows w) = Inr t"
  shows "runtime_sec t =
           (case fst (get_query_stats_from_api cfg repr (captured_query_id (outcome run)) w) of
              Some ss \<Rightarrow> if float_gt0 (elapsed_time_sec ss) then elapsed_time_sec ss
                         else Finite (end_time run - start_time run)
            | None \<Rightarrow> Finite (end_time run - start_time run))
         \<and> client_runtime_sec t = Finite (end_time run - start_time run)"
  using measure_fields(1,2) [OF assms] by simp

theorem runtime_sec_source_witness:
  "runtime_sec (projr (fst (measure_query_execution example_cfg example_repr example_run (Some 5000) example_net)))
     = Finite (31 / 10)
   \<and> client_runtime_sec (projr (fst (measure_query_execution example_cfg example_repr example_run (Some 5000) example_net)))
     = Finite 3"
  using runtime_sec_source [OF example_measure] example_measure
  by (simp add: example_extract example_run_def)



text \<open>
  Claim C3. The memory parser is the conversion by the table \<open>memory_units\<close>, with a bare
  number taken as bytes: a number followed by \<^verbatim>\<open>GB\<close> is multiplied by 1024, by \<^verbatim>\<open>MB\<close>
  kept, by \<^verbatim>\<open>KB\<close> divided by 1024, by \<^verbatim>\<open>B\<close> alone or by nothing divided by 1024 squared;
  an empty or absent input gives 0. So \<^verbatim>\<open>256.5MB\<close> gives 256.5, \<^verbatim>\<open>1.2GB\<close> gives 1228.8,
  \<^verbatim>\<open>512KB\<close> gives 0.5 and \<^verbatim>\<open>1048576\<close> gives 1. Values are exact rationals here.
\<close>

theorem memory_parser_units:
  "parse_memory_to_mb repr v =
     (if \<not> truthy v then Inr (Finite 0)
      else convert_by_priority memory_units (1 / 1024 ^ 2) (upper (str_of repr v)))
   \<and> (set n \<subseteq> set ''0123456789.'' \<and> py_float n = Inr x \<longrightarrow>
        parse_memory_to_mb repr (PStr (n @ ''GB'')) = Inr (float_scale 1024 x)
      \<and> parse_memory_to_mb repr (PStr (n @ ''MB'')) = Inr x
      \<and> parse_memory_to_mb repr (PStr (n @ ''KB'')) = Inr (float_scale (1 / 1024) x)
      \<and> parse_memory_to_mb repr (PStr (n @ ''B'')) = Inr (float_scale (1 / 1024 ^ 2) x)
      \<and> parse_memory_to_mb repr (PStr n) = Inr (float_scale (1 / 1024 ^ 2) x))
   \<and> parse_memory_to_mb repr (PStr ''256.5MB'') = Inr (Finite (2565 / 10))
   \<and> parse_memory_to_mb repr (PStr ''1.2GB'') = Inr (Finite (12288 / 10))
   \<and> parse_memory_to_mb repr (PStr ''512KB'') = Inr (Finite (5 / 10))
   \<and> parse_memory_to_mb repr (PStr ''1048576'') = Inr (Finite 1)
   \<and> parse_memory_to_mb repr (PStr []) = Inr (Finite 0)
   \<and> parse_memory_to_mb repr PNone = Inr (Finite 0)"
proof -
  have e1: "parse_memory_to_mb repr (PStr ''256.5MB'') = Inr (Finite (2565 / 10))"
    by (simp add: parser_defs)
  have e2: "parse_memory_to_mb repr (PStr ''1.2GB'') = Inr (Finite (12288 / 10))"
    by (simp add: parser_defs)
  have e3: "parse_memory_to_mb repr (PStr ''512KB'') = Inr (Finite (5 / 10))"
    by (simp add: parser_defs)
  have e4: "parse_memory_to_mb repr (PStr ''1048576'') = Inr (Finite 1)"
    by (simp add: parser_defs)
  have e5: "parse_memory_to_mb repr (PStr []) = Inr (Finite 0)"
    by (simp add: parse_memory_to_mb_def)
  have e6: "parse_memory_to_mb repr PNone = Inr (Finite 0)"
    by (simp add: parse_memory_to_mb_def)
  show ?thesis
    using parse_memory_by_priority [of repr v] parse_memory_number_unit [of n x repr]
      e1 e2 e3 e4 e5 e6
    by blast
qed

theorem memory_parser_units_witness:
  "set ''2.5'' \<subseteq> set ''0123456789.'' \<and> py_float ''2.5'' = Inr (Finite (5 / 2))
   \<and> parse_memory_to_mb example_repr (PStr ''2.5GB'') = Inr (Finite 2560)
   \<and> parse_memory_to_mb example_repr (PStr ''2.5MB'') = Inr (Finite (5 / 2))
   \<and> parse_memory_to_mb example_repr (PStr ''2.5KB'') = Inr (Finite (5 / 2048))
   \<and> parse_memory_to_mb example_repr (PStr ''2.5B'') = Inr (Finite (5 / 2097152))
   \<and> parse_memory_to_mb example_repr (PStr ''2.5'') = Inr (Finite (5 / 2097152))"
proof -
  have a: "set ''2.5'' \<subseteq> set ''0123456789.''"
    by simp
  have b: "py_float ''2.5'' = Inr (Finite (5 / 2))"
    by (simp add: parser_defs)
  show ?thesis
    using a b memory_parser_units [of example_repr PNone "''2.5''" "Finite (5 / 2)"]
    by simp
qed

text \<open>
  Claim C4. The parsers are meant to give 0 for a text they cannot parse, and do so when
  no unit is recognized. Once a unit is recognized the rest of the text goes to
  \<^verbatim>\<open>float\<close> outside the \<^verbatim>\<open>try\<close>, and a rest that is not a number raises
  \<^verbatim>\<open>ValueError\<close>: the duration \<^verbatim>\<open>unknown\<close> (it ends in \<^verbatim>\<open>n\<close>) and the memory size
  \<^verbatim>\<open>1TB\<close> (it contains \<^verbatim>\<open>B\<close>) both raise, while \<^verbatim>\<open>2.00h\<close> gives 0.
\<close>

theorem parsers_raise_after_a_unit:
  "parse_duration_to_seconds repr (PStr ''unknown'') = Inl ValueError
   \<and> parse_memory_to_mb repr (PStr ''1TB'') = Inl ValueError
   \<and> parse_duration_to_seconds repr (PStr ''2.00h'') = Inr (Finite 0)"
  by (simp add: parser_defs)



text \<open>
  Claim C6. When the request for the statistics fails at the network level or is answered
  with a status other than 200 (401 included), the extractor returns the empty record,
  and the trial is still returned: its source tag is \<^verbatim>\<open>client-only\<close>, CPU seconds and
  peak memory are absent, the processed rows are the caller's baseline estimate (0 when
  there is none), and the runtime is the client's wall-clock duration.
\<close>

theorem failed_endpoint_gives_client_only:
  assumes "failed_reply (stats_reply cfg w qid)"
      and "captured_query_id (outcome run) = Some qid"
  shows "fst (get_query_stats_from_api cfg repr (Some qid) w) = None
       \<and> (\<exists>t. fst (measure_query_execution cfg repr run input_rows w) = Inr t
              \<and> stats_source t = ''client-only''
              \<and> cpu_seconds t = None
              \<and> trial_peak_memory_mb t = None
              \<and> input_rows_processed t = PInt (case input_rows of None \<Rightarrow> 0 | Some n \<Rightarrow> n)
              \<and> runtime_sec t = Finite (end_time run - start_time run)
              \<and> server_stats t = None)"
proof -
  have none: "fst (get_query_stats_from_api cfg repr (Some qid) w) = None"
    using assms(1) by (rule extractor_failed_reply)
  then have "fst (get_query_stats_from_api cfg repr (captured_query_id (outcome run)) w) = None"
    by (simp add: assms(2))
  from measure_without_stats [OF this, of input_rows]
  obtain thr where
    "fst (measure_query_execution cfg repr run input_rows w) =
       Inr \<lparr> runtime_sec = Finite (end_time run - start_time run),
             client_runtime_sec = Finite (end_time run - start_time run),
             rows_returned = captured_row_count (outcome run),
             input_rows_processed = baseline_rows input_rows,
             throughput_input_rows_per_sec = thr,
             cpu_seconds = None,
             trial_peak_memory_mb = None,
             status = captured_status (outcome run),
             trial_query_id = query_id_or_unavailable (captured_query_id (outcome run)),
             stats_source = ''client-only'',
             server_stats = None \<rparr>"
    by blast
  moreover have "baseline_rows input_rows = PInt (case input_rows of None \<Rightarrow> 0 | Some n \<Rightarrow> n)"
    by (simp add: baseline_rows_def split: option.splits)
  ultimately show ?thesis
    using none by simp
qed

theorem failed_endpoint_gives_client_only_witness:
  "failed_reply (stats_reply example_cfg unauthorized_net ''20240101_q1'')
   \<and> captured_query_id (outcome example_run) = Some ''20240101_q1''
   \<and> fst (get_query_stats_from_api example_cfg example_repr (Some ''20240101_q1'') unauthorized_net) = None
   \<and> (\<exists>t. fst (measure_query_execution example_cfg example_repr example_run (Some 5000) unauthorized_net) = Inr t
          \<and> stats_source t = ''client-only''
          \<and> cpu_seconds t = None
          \<and> trial_peak_memory_mb t = None
          \<and> input_rows_processed t = PInt 5000
          \<and> runtime_sec t = Finite 3
          \<and> server_stats t = None)"
proof -
  have a: "failed_reply (stats_reply example_cfg unauthorized_net ''20240101_q1'')"
    by (simp add: stats_reply_def unauthorized_net_def net_answering_def)
  have b: "captured_query_id (outcome example_run) = Some ''20240101_q1''"
    by (simp add: example_run_def)
  show ?thesis
    using a b failed_endpoint_gives_client_only [OF a b, of example_repr "Some 5000"]
    by (simp add: example_run_def)
qed

text \<open>
  Claim C7. Called with a missing query identifier (\<^verbatim>\<open>None\<close> or the empty string) or
  with the sentinel \<^verbatim>\<open>"unknown"\<close>, the extractor returns the empty record and leaves the
  network as it was: no request is sent.
\<close>

theorem extractor_short_circuit:
  assumes "qid = None \<or> qid = Some [] \<or> qid = Some ''unknown''"
  shows "get_query_stats_from_api cfg repr qid w = (None, w)"
  using assms by (auto simp: get_query_stats_from_api_def)

theorem extractor_short_circuit_witness:
  "get_query_stats_from_api example_cfg example_repr (Some ''unknown'') example_net = (None, example_net)
   \<and> sent (snd (get_query_stats_from_api example_cfg example_repr (Some ''unknown'') example_net)) = []"
  using extractor_short_circuit [of "Some ''unknown''" example_cfg example_repr example_net]
  by (simp add: example_net_def net_answering_def)

text \<open>
  Claim C8, as stated: each metric is the first candidate value that is present and not
  null. The code tests truth instead: a candidate that is present with the value 0 (or
  an empty string, or \<^verbatim>\<open>false\<close>) is passed over. With \<^verbatim>\<open>physicalInputRows\<close> 0 and
  \<^verbatim>\<open>processedInputRows\<close> 7 the extractor reports 7 rows, where the first present,
  non-null candidate is 0.
\<close>

theorem first_non_null_counterexample:
  "map_option physical_input_rows
      (fst (get_query_stats_from_api example_cfg example_repr (Some ''20240101_q1'') zero_rows_net))
     = Some (PInt 7)
   \<and> first_non_null (candidates zero_rows_stats input_rows_keys) (PInt 0) = PInt 0
   \<and> map_option physical_input_rows
        (fst (get_query_stats_from_api example_cfg example_repr (Some ''20240101_q1'') zero_rows_net))
       \<noteq> Some (first_non_null (candidates zero_rows_stats input_rows_keys) (PInt 0))"
  by (simp add: extractor_defs example_defs zero_ms Let_def first_non_null_def candidates_def
        input_rows_keys_def)

text \<open>
  Claim C8, amended. On a 200 response from which the extractor returns a record, each of
  CPU time, elapsed time and input row count is the first candidate value, in the order
  of its list of field names, that is true in Python's sense (present, and not null,
  zero, false or empty), with the defaults \<^verbatim>\<open>0ms\<close>, \<^verbatim>\<open>0ms\<close> and 0; the peak memory is
  the first true top-level candidate, and when there is none, the first true candidate of
  the statistics of the output stage, and \<^verbatim>\<open>None\<close> when that has none either.
\<close>

theorem extractor_probes_first_truthy:
  assumes "fst (get_query_stats_from_api cfg repr (Some qid) w) = Some ss"
      and "stats_reply cfg w qid = Response 200 (Some (PDict data))"
      and "dict_get_default data ''queryStats'' (PDict []) = PDict stats"
  shows "cpu_time_str ss = first_truthy (candidates stats cpu_time_keys) (PStr ''0ms'')
       \<and> elapsed_time_str ss = first_truthy (candidates stats elapsed_time_keys) (PStr ''0ms'')
       \<and> physical_input_rows ss = first_truthy (candidates stats input_rows_keys) (PInt 0)
       \<and> peak_memory_str ss =
           (if truthy (first_truthy (candidates stats peak_memory_keys) PNone)
            then first_truthy (candidates stats peak_memory_keys) PNone
            else stage_peak_memory data)"
proof -
  have r: "stats_from_response repr qid (PDict data) = Inr ss"
    using assms(1,2) by (rule extractor_ok_reply)
  show ?thesis
    using stats_from_response_probes [OF r assms(3)] by simp
qed

theorem extractor_probes_first_truthy_witness:
  "cpu_time_str (the (fst (get_query_stats_from_api example_cfg example_repr (Some ''20240101_q1'') example_net)))
     = PStr ''2.5s''
   \<and> elapsed_time_str (the (fst (get_query_stats_from_api example_cfg example_repr (Some ''20240101_q1'') example_net)))
     = PStr ''3.1s''
   \<and> physical_input_rows (the (fst (get_query_stats_from_api example_cfg example_repr (Some ''20240101_q1'') example_net)))
     = PInt 1000
   \<and> peak_memory_str (the (fst (get_query_stats_from_api example_cfg example_repr (Some ''20240101_q1'') example_net)))
     = PStr ''128MB''"
proof -
  have a: "fst (get_query_stats_from_api example_cfg example_repr (Some ''20240101_q1'') example_net) =
             Some (the (fst (get_query_stats_from_api example_cfg example_repr (Some ''20240101_q1'') example_net)))"
    by (simp add: example_extract)
  have b: "stats_reply example_cfg example_net ''20240101_q1'' = Response 200 (Some (PDict example_data))"
    by (simp add: stats_reply_def example_net_def net_answering_def)
  have c: "dict_get_default example_data ''queryStats'' (PDict []) = PDict example_stats"
    by (simp add: dict_get_default_def example_data_def)
  show ?thesis
    using extractor_probes_first_truthy [OF a b c]
    by (simp add: first_truthy_def candidates_def dict_get_def dict_get_default_def example_stats_def
          cpu_time_keys_def elapsed_time_keys_def input_rows_keys_def peak_memory_keys_def)
qed

text \<open>
  Claim C9. A trial carries the source tag \<^verbatim>\<open>REST API\<close> exactly when the extractor
  returned a record, and \<^verbatim>\<open>client-only\<close> exactly when it returned the empty record. In
  particular a response with status 200 that has none of the candidate fields (and no
  output stage) gives a record whose CPU and elapsed strings are the default \<^verbatim>\<open>0ms\<close>:
  the trial is returned with the tag \<^verbatim>\<open>REST API\<close>, the client's wall-clock runtime, and
  no CPU seconds and no peak memory.
\<close>

theorem rest_api_tag:
  "(fst (measure_query_execution cfg repr run input_rows w) = Inr t \<longrightarrow>
      (stats_source t = ''REST API'') =
        (fst (get_query_stats_from_api cfg repr (captured_query_id (outcome run)) w) \<noteq> None)
      \<and> (stats_source t = ''client-only'') =
        (fst (get_query_stats_from_api cfg repr (captured_query_id (outcome run)) w) = None))
   \<and> (captured_query_id (outcome run) = Some qid \<and> qid \<noteq> [] \<and> qid \<noteq> ''unknown''
       \<and> stats_reply cfg w qid = Response 200 (Some (PDict data))
       \<and> dict_get_default data ''queryStats'' (PDict []) = PDict stats
       \<and> (\<forall>k \<in> set (cpu_time_keys @ elapsed_time_keys @ peak_memory_keys @ input_rows_keys).
             map_of stats k = None)
       \<and> map_of data ''outputStage'' = None \<longrightarrow>
      (\<exists>t' ss. fst (measure_query_execution cfg repr run input_rows w) = Inr t'
         \<and> server_stats t' = Some ss
         \<and> cpu_time_str ss = PStr ''0ms'' \<and> elapsed_time_str ss = PStr ''0ms''
         \<and> stats_source t' = ''REST API''
         \<and> runtime_sec t' = Finite (end_time run - start_time run)
         \<and> cpu_seconds t' = None
         \<and> trial_peak_memory_mb t' = None))"
proof (intro conjI impI)
  let ?stats = "fst (get_query_stats_from_api cfg repr (captured_query_id (outcome run)) w)"
  assume t: "fst (measure_query_execution cfg repr run input_rows w) = Inr t"
  have src: "stats_source t = (case ?stats of None \<Rightarrow> ''client-only'' | Some ss \<Rightarrow> source ss)"
    using t by (rule measure_fields(6))
  show "(stats_source t = ''REST API'') = (?stats \<noteq> None)"
  proof (cases ?stats)
    case None
    with src show ?thesis by simp
  next
    case (Some ss)
    with src extractor_source [OF Some] show ?thesis by simp
  qed
  show "(stats_source t = ''client-only'') = (?stats = None)"
  proof (cases ?stats)
    case None
    with src show ?thesis by simp
  next
    case (Some ss)
    with src extractor_source [OF Some] show ?thesis by simp
  qed
next
  assume a: "captured_query_id (outcome run) = Some qid \<and> qid \<noteq> [] \<and> qid \<noteq> ''unknown''
       \<and> stats_reply cfg w qid = Response 200 (Some (PDict data))
       \<and> dict_get_default data ''queryStats'' (PDict []) = PDict stats
       \<and> (\<forall>k \<in> set (cpu_time_keys @ elapsed_time_keys @ peak_memory_keys @ input_rows_keys).
             map_of stats k = None)
       \<and> map_of data ''outputStage'' = None"
  define ss where "ss =
     \<lparr> query_id = qid,
       state = dict_get_default data ''state'' (PStr ''UNKNOWN''),
       cpu_time_str = PStr ''0ms'', cpu_time_sec = Finite 0,
       elapsed_time_str = PStr ''0ms'', elapsed_time_sec = Finite 0,
       peak_memory_str = PNone, peak_memory_mb = Finite 0,
       physical_input_rows = PInt 0,
       output_rows = py_or (dict_get stats ''outputRows'')
                           (py_or (dict_get stats ''completedRows'') (PInt 0)),
       source = ''REST API'' \<rparr>"
  from a have "stats_from_response repr qid (PDict data) = Inr ss"
    unfolding ss_def by (intro stats_without_fields) simp_all
  with a have "fst (get_query_stats_from_api cfg repr (Some qid) w) = Some ss"
    by (simp add: get_query_stats_from_api_def requests_get_def stats_reply_def)
  with a have got: "fst (get_query_stats_from_api cfg repr (captured_query_id (outcome run)) w) = Some ss"
    by simp
  from measure_with_empty_stats [OF got, of input_rows]
  obtain thr where
    "fst (measure_query_execution cfg repr run input_rows w) =
       Inr \<lparr> runtime_sec = Finite (end_time run - start_time run),
             client_runtime_sec = Finite (end_time run - start_time run),
             rows_returned = captured_row_count (outcome run),
             input_rows_processed = baseline_rows input_rows,
             throughput_input_rows_per_sec = thr,
             cpu_seconds = None,
             trial_peak_memory_mb = None,
             status = captured_status (outcome run),
             trial_query_id = query_id_or_unavailable (captured_query_id (outcome run)),
             stats_source = ''REST API'',
             server_stats = Some ss \<rparr>"
    by (auto simp: ss_def)
  then show "\<exists>t' ss. fst (measure_query_execution cfg repr run input_rows w) = Inr t'
         \<and> server_stats t' = Some ss
         \<and> cpu_time_str ss = PStr ''0ms'' \<and> elapsed_time_str ss = PStr ''0ms''
         \<and> stats_source t' = ''REST API''
         \<and> runtime_sec t' = Finite (end_time run - start_time run)
         \<and> cpu_seconds t' = None
         \<and> trial_peak_memory_mb t' = None"
    by (simp add: ss_def)
qed

theorem rest_api_tag_witness:
  "stats_source (projr (fst (measure_query_execution example_cfg example_repr example_run (Some 5000) bare_net)))
     = ''REST API''
   \<and> fst (get_query_stats_from_api example_cfg example_repr (Some ''20240101_q1'') bare_net) \<noteq> None
   \<and> (\<exists>t' ss. fst (measure_query_execution example_cfg example_repr example_run (Some 5000) bare_net) = Inr t'
         \<and> server_stats t' = Some ss
         \<and> cpu_time_str ss = PStr ''0ms'' \<and> elapsed_time_str ss = PStr ''0ms''
         \<and> stats_source t' = ''REST API''
         \<and> runtime_sec t' = Finite 3
         \<and> cpu_seconds t' = None
         \<and> trial_peak_memory_mb t' = None)"
proof -
  have hyp: "captured_query_id (outcome example_run) = Some ''20240101_q1''
       \<and> ''20240101_q1'' \<noteq> [] \<and> ''20240101_q1'' \<noteq> ''unknown''
       \<and> stats_reply example_cfg bare_net ''20240101_q1''
           = Response 200 (Some (PDict [(''state'', PStr ''FINISHED'')]))
       \<and> dict_get_default [(''state'', PStr ''FINISHED'')] ''queryStats'' (PDict []) = PDict []
       \<and> (\<forall>k \<in> set (cpu_time_keys @ elapsed_time_keys @ peak_memory_keys @ input_rows_keys).
             map_of [] k = (None :: pyval option))
       \<and> map_of [(''state'', PStr ''FINISHED'')] ''outputStage'' = None"
    by (simp add: example_run_def stats_reply_def bare_net_def net_answering_def dict_get_default_def)
  show ?thesis
    using rest_api_tag [of example_cfg example_repr example_run "Some 5000" bare_net
        "projr (fst (measure_query_execution example_cfg example_repr example_run (Some 5000) bare_net))"
        "''20240101_q1''" "[(''state'', PStr ''FINISHED'')]" "[]"]
      hyp bare_measure
    by (simp add: bare_extract example_run_def)
qed

text \<open>
  Claim C10. In every trial the measurer returns, \<open>query_id\<close> is a non-empty string: the
  identifier captured from the cursor, or \<^verbatim>\<open>unavailable\<close> when none was captured.
\<close>

theorem query_id_never_missing:
  assumes "fst (measure_query_execution cfg repr run input_rows w) = Inr t"
  shows "trial_query_id t \<noteq> []
       \<and> trial_query_id t =
           (case captured_query_id (outcome run) of
              None \<Rightarrow> ''unavailable''
            | Some q \<Rightarrow> if q = [] then ''unavailable'' else q)"
  using measure_fields(5) [OF assms]
  by (simp add: query_id_or_unavailable_def split: option.splits)

theorem query_id_never_missing_witness:
  "trial_query_id (projr (fst (measure_query_execution example_cfg example_repr failing_run None example_net)))
     = ''unavailable''"
  using query_id_never_missing [OF failing_measure] failing_measure
  by (simp add: failing_run_def)

end
